theory Spec2Isabelle
  imports Complex_Main "HOL-Library.Sublist"
begin

section \<open>Data model\<close>

text \<open>
  The dashboard is a React application. Its retrieval logic lives in the component
  \<open>MapView\<close>, of which the repository holds two copies: the one in
  \<open>src/components/MapView.tsx\<close> (functions suffixed \<open>_mv\<close> below) and the one that renders
  through the lazily loaded \<open>LeafletMap\<close> (suffixed \<open>_lz\<close>). The list and the statistics bar
  are the component \<open>HotspotList\<close>, and \<open>App\<close> wires the two together.

  A TypeScript \<open>number\<close> is modelled as a real: the comparisons and the additions of the
  source are read as the exact ones, so neither rounding nor \<open>NaN\<close> is represented.
  A field that may be missing (or \<open>null\<close>) in a JSON body is an \<open>option\<close>.
\<close>

type_synonym number = real

record Hotspot =
  id_hs :: number
  lat :: number
  lng :: number
  confidence :: number
  frp :: number
  detectionTime :: string

record Weather =
  temp :: number
  humidity :: number
  windSpeed :: number

text \<open>The body of \<open>GET /nearby-hotspots\<close>, as \<open>fetchHotspots\<close> destructures it.\<close>

record Body =
  weather :: "Weather option"
  fetchedHotspots :: "Hotspot list option"
  top5 :: "Hotspot list option"

text \<open>One element of the geocoder's JSON array: the fields \<open>lat\<close> and \<open>lon\<close> are strings.\<close>

record Place =
  place_lat :: string
  place_lon :: string

text \<open>
  What the awaited requests can come back with. \<open>ResponseData None\<close> is a response whose
  \<open>data\<close> is \<open>null\<close>: destructuring it throws inside the \<open>try\<close> block.
\<close>

datatype retrieval_outcome = RequestFailed | ResponseData "Body option"

datatype geocode_outcome = GeocodeFailed | GeocodeData "Place list option"

datatype position_outcome = NoGeolocation | PositionError | Position number number

datatype request = NearbyHotspots number number | GeocodeSearch string

datatype thrown = AxiosError | TypeError

text \<open>
  The \<open>useState\<close> cells of \<open>MapView\<close> (the first six fields) and of \<open>App\<close> (\<open>app_hotspots\<close>,
  \<open>app_weather\<close>), and the log of the requests sent so far.
\<close>

record ui_state =
  userLocation :: "(number \<times> number) option"
  mapCenter :: "number \<times> number"
  hotspots :: "Hotspot list"
  searchQuery :: string
  loading :: bool
  error :: "string option"
  app_hotspots :: "Hotspot list"
  app_weather :: "Weather option"
  requests :: "request list"

definition defaultCenter :: "number \<times> number" where
  "defaultCenter = (34.0522, - 118.2437)"

definition initial_state :: ui_state where
  "initial_state =
     \<lparr>userLocation = None, mapCenter = (34.0522, - 118.2437), hotspots = [],
      searchQuery = [], loading = False, error = None,
      app_hotspots = [], app_weather = None, requests = []\<rparr>"

section \<open>State setters and callbacks\<close>

definition setUserLocation :: "(number \<times> number) option \<Rightarrow> ui_state \<Rightarrow> ui_state" where
  "setUserLocation v st = st\<lparr>userLocation := v\<rparr>"

definition setMapCenter :: "number \<times> number \<Rightarrow> ui_state \<Rightarrow> ui_state" where
  "setMapCenter v st = st\<lparr>mapCenter := v\<rparr>"

definition setHotspots :: "Hotspot list \<Rightarrow> ui_state \<Rightarrow> ui_state" where
  "setHotspots v st = st\<lparr>hotspots := v\<rparr>"

definition setLoading :: "bool \<Rightarrow> ui_state \<Rightarrow> ui_state" where
  "setLoading v st = st\<lparr>loading := v\<rparr>"

definition setError :: "string option \<Rightarrow> ui_state \<Rightarrow> ui_state" where
  "setError v st = st\<lparr>error := v\<rparr>"

text \<open>\<open>App\<close> passes its own setters as \<open>onHotspotsUpdate\<close> and \<open>onWeatherUpdate\<close>.\<close>

definition onHotspotsUpdate :: "Hotspot list \<Rightarrow> ui_state \<Rightarrow> ui_state" where
  "onHotspotsUpdate v st = st\<lparr>app_hotspots := v\<rparr>"

definition onWeatherUpdate :: "Weather option \<Rightarrow> ui_state \<Rightarrow> ui_state" where
  "onWeatherUpdate v st = st\<lparr>app_weather := v\<rparr>"

definition send :: "request \<Rightarrow> ui_state \<Rightarrow> ui_state" where
  "send r st = st\<lparr>requests := requests st @ [r]\<rparr>"

text \<open>JavaScript's \<open>x || d\<close> on a value that is an object (an array) or missing.\<close>

definition or_else :: "'a option \<Rightarrow> 'a \<Rightarrow> 'a" where
  "or_else x d = (case x of Some v \<Rightarrow> v | None \<Rightarrow> d)"

section \<open>Hotspot retrieval\<close>

text \<open>
  The degraded bundle. \<open>clock i\<close> is the \<open>i\<close>-th reading of \<open>new Date().toISOString()\<close>;
  \<open>la\<close>, \<open>lo\<close> are the two numbers the offsets are added to.
\<close>

definition mockHotspots :: "(nat \<Rightarrow> string) \<Rightarrow> number \<Rightarrow> number \<Rightarrow> Hotspot list" where
  "mockHotspots clock la lo =
     [\<lparr>id_hs = 1, lat = la + 0.1, lng = lo + 0.1, confidence = 95, frp = 45.2,
        detectionTime = clock 0\<rparr>,
      \<lparr>id_hs = 2, lat = la - 0.15, lng = lo + 0.2, confidence = 78, frp = 32.1,
        detectionTime = clock 1\<rparr>,
      \<lparr>id_hs = 3, lat = la + 0.2, lng = lo - 0.1, confidence = 62, frp = 18.5,
        detectionTime = clock 2\<rparr>,
      \<lparr>id_hs = 4, lat = la - 0.08, lng = lo - 0.15, confidence = 45, frp = 12.3,
        detectionTime = clock 3\<rparr>,
      \<lparr>id_hs = 5, lat = la + 0.25, lng = lo + 0.05, confidence = 88, frp = 38.7,
        detectionTime = clock 4\<rparr>]"

definition mockWeather :: Weather where
  "mockWeather = \<lparr>temp = 32, humidity = 15, windSpeed = 25\<rparr>"

text \<open>Up to the \<open>await\<close>: the two setters, then the request goes out.\<close>

definition fetchHotspots_issue :: "number \<Rightarrow> number \<Rightarrow> ui_state \<Rightarrow> ui_state" where
  "fetchHotspots_issue la lo st =
     send (NearbyHotspots la lo) (setError None (setLoading True st))"

text \<open>The \<open>finally\<close> block, shared by both copies.\<close>

definition fetchHotspots_finally :: "ui_state \<Rightarrow> ui_state" where
  "fetchHotspots_finally st = setLoading False st"

subsection \<open>The copy that renders through \<open>LeafletMap\<close>\<close>

definition fetchHotspots_try_lz :: "retrieval_outcome \<Rightarrow> ui_state \<Rightarrow> thrown + ui_state" where
  "fetchHotspots_try_lz out st =
     (case out of
        RequestFailed \<Rightarrow> Inl AxiosError
      | ResponseData None \<Rightarrow> Inl TypeError
      | ResponseData (Some d) \<Rightarrow>
          Inr (onWeatherUpdate (weather d)
                (onHotspotsUpdate (or_else (top5 d) (or_else (fetchedHotspots d) []))
                  (setHotspots (or_else (fetchedHotspots d) []) st))))"

definition fetchHotspots_catch_lz ::
  "(nat \<Rightarrow> string) \<Rightarrow> number \<Rightarrow> number \<Rightarrow> ui_state \<Rightarrow> ui_state" where
  "fetchHotspots_catch_lz clock la lo st =
     onWeatherUpdate (Some mockWeather)
       (onHotspotsUpdate (mockHotspots clock la lo)
         (setHotspots (mockHotspots clock la lo)
           (setError (Some ''Using mock data (backend not available)'') st)))"

definition fetchHotspots_settle_lz ::
  "(nat \<Rightarrow> string) \<Rightarrow> number \<Rightarrow> number \<Rightarrow> retrieval_outcome \<Rightarrow> ui_state \<Rightarrow> ui_state" where
  "fetchHotspots_settle_lz clock la lo out st =
     fetchHotspots_finally
       (case fetchHotspots_try_lz out st of
          Inr st' \<Rightarrow> st'
        | Inl e \<Rightarrow> fetchHotspots_catch_lz clock la lo st)"

definition fetchHotspots_lz ::
  "(nat \<Rightarrow> string) \<Rightarrow> number \<Rightarrow> number \<Rightarrow> retrieval_outcome \<Rightarrow> ui_state \<Rightarrow> ui_state" where
  "fetchHotspots_lz clock la lo out st =
     fetchHotspots_settle_lz clock la lo out (fetchHotspots_issue la lo st)"

subsection \<open>The copy in \<open>src/components/MapView.tsx\<close>\<close>

text \<open>
  Here the callback closes over \<open>mapCenter\<close>: \<open>mc\<close> is the value of that cell in the render
  that created the callback, and the mock positions are offsets from it.
\<close>

definition fetchHotspots_try_mv :: "retrieval_outcome \<Rightarrow> ui_state \<Rightarrow> thrown + ui_state" where
  "fetchHotspots_try_mv out st =
     (case out of
        RequestFailed \<Rightarrow> Inl AxiosError
      | ResponseData None \<Rightarrow> Inl TypeError
      | ResponseData (Some d) \<Rightarrow>
          Inr (onWeatherUpdate (weather d)
                (onHotspotsUpdate (or_else (top5 d) [])
                  (setHotspots (or_else (fetchedHotspots d) []) st))))"

definition fetchHotspots_catch_mv ::
  "(nat \<Rightarrow> string) \<Rightarrow> number \<times> number \<Rightarrow> ui_state \<Rightarrow> ui_state" where
  "fetchHotspots_catch_mv clock mc st =
     onWeatherUpdate (Some mockWeather)
       (onHotspotsUpdate (mockHotspots clock (fst mc) (snd mc))
         (setHotspots (mockHotspots clock (fst mc) (snd mc))
           (setError (Some ''Failed to fetch hotspot data. Using mock data.'') st)))"

definition fetchHotspots_settle_mv ::
  "(nat \<Rightarrow> string) \<Rightarrow> number \<times> number \<Rightarrow> retrieval_outcome \<Rightarrow> ui_state \<Rightarrow> ui_state" where
  "fetchHotspots_settle_mv clock mc out st =
     fetchHotspots_finally
       (case fetchHotspots_try_mv out st of
          Inr st' \<Rightarrow> st'
        | Inl e \<Rightarrow> fetchHotspots_catch_mv clock mc st)"

definition fetchHotspots_mv ::
  "(nat \<Rightarrow> string) \<Rightarrow> number \<times> number \<Rightarrow> number \<Rightarrow> number \<Rightarrow> retrieval_outcome
     \<Rightarrow> ui_state \<Rightarrow> ui_state" where
  "fetchHotspots_mv clock mc la lo out st =
     fetchHotspots_settle_mv clock mc out (fetchHotspots_issue la lo st)"

section \<open>Coordinate resolution\<close>

text \<open>
  A handler returns when it has started its retrieval; the retrieval settles later. So a
  handler yields the state at its return together with the retrieval it left in flight,
  if any. \<open>parseFloat\<close> is the JavaScript builtin, taken as a parameter.
\<close>

text \<open>
  \<open>String.prototype.trim\<close> on a string of 8-bit code units: the white space and line
  terminators of that range are TAB, LF, VT, FF, CR, SP and NBSP.
\<close>

definition is_ws :: "char \<Rightarrow> bool" where
  "is_ws c = (c \<in> set [CHR 0x09, CHR 0x0A, CHR 0x0B, CHR 0x0C, CHR 0x0D, CHR 0x20, CHR 0xA0])"

definition trim :: "string \<Rightarrow> string" where
  "trim s = rev (dropWhile is_ws (rev (dropWhile is_ws s)))"

subsection \<open>The copy that renders through \<open>LeafletMap\<close>\<close>

definition geolocationEffect_lz ::
  "position_outcome \<Rightarrow> ui_state \<Rightarrow> ui_state \<times> (number \<times> number) option" where
  "geolocationEffect_lz pos st =
     (case pos of
        Position latitude longitude \<Rightarrow>
          (fetchHotspots_issue latitude longitude
             (setMapCenter (latitude, longitude)
               (setUserLocation (Some (latitude, longitude)) st)),
           Some (latitude, longitude))
      | PositionError \<Rightarrow>
          (fetchHotspots_issue (fst defaultCenter) (snd defaultCenter) st, Some defaultCenter)
      | NoGeolocation \<Rightarrow>
          (fetchHotspots_issue (fst defaultCenter) (snd defaultCenter) st, Some defaultCenter))"

definition handleSearch_try_lz ::
  "(string \<Rightarrow> number) \<Rightarrow> geocode_outcome \<Rightarrow> ui_state
     \<Rightarrow> thrown + ui_state \<times> (number \<times> number) option" where
  "handleSearch_try_lz parseFloat geo st =
     (case geo of
        GeocodeFailed \<Rightarrow> Inl AxiosError
      | GeocodeData None \<Rightarrow>
          Inr (setLoading False (setError (Some ''Location not found'') st), None)
      | GeocodeData (Some []) \<Rightarrow>
          Inr (setLoading False (setError (Some ''Location not found'') st), None)
      | GeocodeData (Some (p # ps)) \<Rightarrow>
          (let newCenter = (parseFloat (place_lat p), parseFloat (place_lon p))
           in Inr (fetchHotspots_issue (fst newCenter) (snd newCenter)
                     (setMapCenter newCenter st),
                   Some newCenter)))"

definition handleSearch_lz ::
  "(string \<Rightarrow> number) \<Rightarrow> geocode_outcome \<Rightarrow> ui_state
     \<Rightarrow> ui_state \<times> (number \<times> number) option" where
  "handleSearch_lz parseFloat geo st =
     (if trim (searchQuery st) = [] then (st, None)
      else
        (let st1 = send (GeocodeSearch (searchQuery st)) (setLoading True st)
         in case handleSearch_try_lz parseFloat geo st1 of
              Inr r \<Rightarrow> r
            | Inl e \<Rightarrow>
                (setLoading False (setError (Some ''Failed to search location'') st1), None)))"

text \<open>A handler's run carried to the end: the retrieval it left in flight settles.\<close>

definition settle_lz ::
  "(nat \<Rightarrow> string) \<Rightarrow> retrieval_outcome \<Rightarrow> ui_state \<times> (number \<times> number) option
     \<Rightarrow> ui_state" where
  "settle_lz clock out r =
     (case snd r of
        None \<Rightarrow> fst r
      | Some c \<Rightarrow> fetchHotspots_settle_lz clock (fst c) (snd c) out (fst r))"

subsection \<open>The copy in \<open>src/components/MapView.tsx\<close>\<close>

text \<open>
  The retrieval in flight also carries the \<open>mapCenter\<close> its callback closed over. The
  effect runs once, after the first render, so the \<open>mapCenter\<close> it reads is the initial
  one; \<open>handleSearch\<close> belongs to the render of the state it is called in. Its
  \<open>finally\<close> block runs when the handler returns, after the retrieval was started.
\<close>

definition geolocationEffect_mv ::
  "position_outcome \<Rightarrow> ui_state
     \<Rightarrow> ui_state \<times> ((number \<times> number) \<times> number \<times> number) option" where
  "geolocationEffect_mv pos st =
     (let mapCenter0 = mapCenter initial_state
      in case pos of
           Position latitude longitude \<Rightarrow>
             (fetchHotspots_issue latitude longitude
                (setMapCenter (latitude, longitude)
                  (setUserLocation (Some (latitude, longitude)) st)),
              Some (mapCenter0, latitude, longitude))
         | PositionError \<Rightarrow>
             (fetchHotspots_issue (fst mapCenter0) (snd mapCenter0) st,
              Some (mapCenter0, fst mapCenter0, snd mapCenter0))
         | NoGeolocation \<Rightarrow>
             (fetchHotspots_issue (fst mapCenter0) (snd mapCenter0) st,
              Some (mapCenter0, fst mapCenter0, snd mapCenter0)))"

definition handleSearch_try_mv ::
  "(string \<Rightarrow> number) \<Rightarrow> number \<times> number \<Rightarrow> geocode_outcome \<Rightarrow> ui_state
     \<Rightarrow> thrown + ui_state \<times> ((number \<times> number) \<times> number \<times> number) option" where
  "handleSearch_try_mv parseFloat mc geo st =
     (case geo of
        GeocodeFailed \<Rightarrow> Inl AxiosError
      | GeocodeData None \<Rightarrow> Inr (setError (Some ''Location not found'') st, None)
      | GeocodeData (Some []) \<Rightarrow> Inr (setError (Some ''Location not found'') st, None)
      | GeocodeData (Some (p # ps)) \<Rightarrow>
          (let newCenter = (parseFloat (place_lat p), parseFloat (place_lon p))
           in Inr (fetchHotspots_issue (fst newCenter) (snd newCenter)
                     (setMapCenter newCenter st),
                   Some (mc, fst newCenter, snd newCenter))))"

definition handleSearch_mv ::
  "(string \<Rightarrow> number) \<Rightarrow> geocode_outcome \<Rightarrow> ui_state
     \<Rightarrow> ui_state \<times> ((number \<times> number) \<times> number \<times> number) option" where
  "handleSearch_mv parseFloat geo st =
     (if trim (searchQuery st) = [] then (st, None)
      else
        (let st1 = send (GeocodeSearch (searchQuery st)) (setLoading True st);
             r = (case handleSearch_try_mv parseFloat (mapCenter st) geo st1 of
                    Inr r \<Rightarrow> r
                  | Inl e \<Rightarrow> (setError (Some ''Failed to search location'') st1, None))
         in (setLoading False (fst r), snd r)))"

definition settle_mv ::
  "(nat \<Rightarrow> string) \<Rightarrow> retrieval_outcome
     \<Rightarrow> ui_state \<times> ((number \<times> number) \<times> number \<times> number) option \<Rightarrow> ui_state" where
  "settle_mv clock out r =
     (case snd r of
        None \<Rightarrow> fst r
      | Some c \<Rightarrow> fetchHotspots_settle_mv clock (fst c) out (fst r))"

section \<open>Derived views\<close>

text \<open>
  The colour functions of \<open>HotspotList\<close>, the dot of a \<open>HotspotCard\<close>, and the colour that
  \<open>createMarkerIcon\<close> (in \<open>MapView.tsx\<close> and in \<open>LeafletMap\<close>) puts into the marker's HTML.
\<close>

definition getConfidenceColor :: "number \<Rightarrow> string" where
  "getConfidenceColor c =
     (if c \<ge> 80 then ''text-danger'' else if c \<ge> 50 then ''text-warning'' else ''text-caution'')"

definition getConfidenceBg :: "number \<Rightarrow> string" where
  "getConfidenceBg c =
     (if c \<ge> 80 then ''bg-danger/20 border-danger/30''
      else if c \<ge> 50 then ''bg-warning/20 border-warning/30''
      else ''bg-caution/20 border-caution/30'')"

definition cardDot :: "number \<Rightarrow> string" where
  "cardDot c = (if c \<ge> 80 then ''bg-danger'' else if c \<ge> 50 then ''bg-warning'' else ''bg-caution'')"

definition createMarkerIcon_mv :: "number \<Rightarrow> string" where
  "createMarkerIcon_mv c =
     (if c \<ge> 80 then ''#ef4444'' else if c \<ge> 50 then ''#f97316'' else ''#eab308'')"

definition createMarkerIcon_lm :: "number \<Rightarrow> string" where
  "createMarkerIcon_lm c =
     (if c \<ge> 80 then ''#ef4444'' else if c \<ge> 50 then ''#f97316'' else ''#eab308'')"

text \<open>The three filters of the statistics bar.\<close>

definition isHighRisk :: "Hotspot \<Rightarrow> bool" where
  "isHighRisk h = (confidence h \<ge> 80)"

definition isMediumRisk :: "Hotspot \<Rightarrow> bool" where
  "isMediumRisk h = (confidence h \<ge> 50 \<and> confidence h < 80)"

definition isLowRisk :: "Hotspot \<Rightarrow> bool" where
  "isLowRisk h = (confidence h < 50)"

record stats_bar =
  total :: nat
  high :: nat
  medium :: nat
  low :: nat

definition HotspotList_stats :: "Hotspot list \<Rightarrow> stats_bar" where
  "HotspotList_stats hs =
     \<lparr>total = length hs,
      high = length (filter isHighRisk hs),
      medium = length (filter isMediumRisk hs),
      low = length (filter isLowRisk hs)\<rparr>"

text \<open>The cards of the grid (\<open>slice(0, 5)\<close>), and whether the empty state is shown instead.\<close>

definition HotspotList_cards :: "Hotspot list \<Rightarrow> Hotspot list" where
  "HotspotList_cards hs = take 5 hs"

definition HotspotList_empty :: "Hotspot list \<Rightarrow> bool" where
  "HotspotList_empty hs = (\<not> length hs > 0)"

text \<open>\<open>App\<close> renders \<open>HotspotList\<close> with its own \<open>hotspots\<close> cell.\<close>

definition App_stats :: "ui_state \<Rightarrow> stats_bar" where
  "App_stats st = HotspotList_stats (app_hotspots st)"

definition App_cards :: "ui_state \<Rightarrow> Hotspot list" where
  "App_cards st = HotspotList_cards (app_hotspots st)"

definition App_empty :: "ui_state \<Rightarrow> bool" where
  "App_empty st = HotspotList_empty (app_hotspots st)"

text \<open>The buckets in the specification's words, to compare the code with.\<close>

datatype bucket = High | Medium | Low

definition spec_bucket :: "number \<Rightarrow> bucket" where
  "spec_bucket c = (if c \<ge> 80 then High else if 50 \<le> c \<and> c < 80 then Medium else Low)"

text \<open>
  The specification's data model has the ranked subset as a subsequence of the hotspots.
  On a body: a \<open>top5\<close>, when there is one, is a subsequence of the \<open>hotspots\<close> array.
\<close>

definition ranked_within_hotspots :: "Body \<Rightarrow> bool" where
  "ranked_within_hotspots d =
     (case top5 d of
        None \<Rightarrow> True
      | Some t \<Rightarrow> subseq t (or_else (fetchedHotspots d) []))"

section \<open>Sample inputs\<close>

definition clock0 :: "nat \<Rightarrow> string" where
  "clock0 n = ''2025-01-01T00:00:00.000Z''"

definition parseFloat0 :: "string \<Rightarrow> number" where
  "parseFloat0 s =
     (if s = ''40.7128'' then 40.7128 else if s = ''-74.0060'' then - 74.006 else 0)"

definition newYork :: Place where
  "newYork = \<lparr>place_lat = ''40.7128'', place_lon = ''-74.0060''\<rparr>"

definition searching :: ui_state where
  "searching = initial_state\<lparr>searchQuery := ''New York''\<rparr>"

definition hotspotA :: Hotspot where
  "hotspotA = \<lparr>id_hs = 1, lat = 34.1, lng = - 118.2, confidence = 91, frp = 40.5,
               detectionTime = ''2025-01-01T00:00:00.000Z''\<rparr>"

definition hotspotB :: Hotspot where
  "hotspotB = \<lparr>id_hs = 2, lat = 34.3, lng = - 118.4, confidence = 85, frp = 22,
               detectionTime = ''2025-01-01T00:00:00.000Z''\<rparr>"

definition blankQuery :: ui_state where
  "blankQuery = initial_state\<lparr>searchQuery := [CHR 0x20, CHR 0x09, CHR 0x20]\<rparr>"

definition twoOfWhichOneRanked :: Body where
  "twoOfWhichOneRanked =
     \<lparr>weather = None, fetchedHotspots = Some [hotspotA, hotspotB], top5 = Some [hotspotA]\<rparr>"

definition unranked :: Body where
  "unranked = \<lparr>weather = None, fetchedHotspots = Some [hotspotA, hotspotB], top5 = None\<rparr>"

definition nothingFound :: Body where
  "nothingFound = \<lparr>weather = None, fetchedHotspots = Some [], top5 = Some []\<rparr>"

text \<open>The state once a search for New York has run and its retrieval has settled.\<close>

definition afterSearch :: ui_state where
  "afterSearch =
     settle_lz clock0 (ResponseData (Some nothingFound))
       (handleSearch_lz parseFloat0 (GeocodeData (Some [newYork])) searching)"

section \<open>Unfolding rules and frame lemmas\<close>

lemmas setter_defs = setUserLocation_def setMapCenter_def setHotspots_def setLoading_def
  setError_def onHotspotsUpdate_def onWeatherUpdate_def send_def

lemmas fetch_defs = fetchHotspots_issue_def fetchHotspots_finally_def
  fetchHotspots_try_lz_def fetchHotspots_catch_lz_def fetchHotspots_settle_lz_def
  fetchHotspots_lz_def fetchHotspots_try_mv_def fetchHotspots_catch_mv_def
  fetchHotspots_settle_mv_def fetchHotspots_mv_def

text \<open>What starting and settling a retrieval leave alone, and what they set.\<close>

lemma issue_frame:
  "mapCenter (fetchHotspots_issue la lo st) = mapCenter st"
  "userLocation (fetchHotspots_issue la lo st) = userLocation st"
  "hotspots (fetchHotspots_issue la lo st) = hotspots st"
  "searchQuery (fetchHotspots_issue la lo st) = searchQuery st"
  "requests (fetchHotspots_issue la lo st) = requests st @ [NearbyHotspots la lo]"
  "error (fetchHotspots_issue la lo st) = None"
  "loading (fetchHotspots_issue la lo st) = True"
  by (simp_all add: fetchHotspots_issue_def setter_defs)

lemma settle_lz_frame:
  "mapCenter (fetchHotspots_settle_lz clock la lo out st) = mapCenter st"
  "userLocation (fetchHotspots_settle_lz clock la lo out st) = userLocation st"
  "searchQuery (fetchHotspots_settle_lz clock la lo out st) = searchQuery st"
  "requests (fetchHotspots_settle_lz clock la lo out st) = requests st"
  "loading (fetchHotspots_settle_lz clock la lo out st) = False"
  by (simp_all add: fetchHotspots_settle_lz_def fetchHotspots_try_lz_def
      fetchHotspots_catch_lz_def fetchHotspots_finally_def setter_defs
      split: retrieval_outcome.split option.split)

lemma settle_mv_frame:
  "mapCenter (fetchHotspots_settle_mv clock mc out st) = mapCenter st"
  "userLocation (fetchHotspots_settle_mv clock mc out st) = userLocation st"
  "searchQuery (fetchHotspots_settle_mv clock mc out st) = searchQuery st"
  "requests (fetchHotspots_settle_mv clock mc out st) = requests st"
  "loading (fetchHotspots_settle_mv clock mc out st) = False"
  by (simp_all add: fetchHotspots_settle_mv_def fetchHotspots_try_mv_def
      fetchHotspots_catch_mv_def fetchHotspots_finally_def setter_defs
      split: retrieval_outcome.split option.split)

lemma settle_lz_error:
  "error (fetchHotspots_settle_lz clock la lo out st) =
     (case out of ResponseData (Some d) \<Rightarrow> error st
      | _ \<Rightarrow> Some ''Using mock data (backend not available)'')"
  by (simp add: fetchHotspots_settle_lz_def fetchHotspots_try_lz_def
      fetchHotspots_catch_lz_def fetchHotspots_finally_def setter_defs
      split: retrieval_outcome.split option.split)

lemma settle_mv_error:
  "error (fetchHotspots_settle_mv clock mc out st) =
     (case out of ResponseData (Some d) \<Rightarrow> error st
      | _ \<Rightarrow> Some ''Failed to fetch hotspot data. Using mock data.'')"
  by (simp add: fetchHotspots_settle_mv_def fetchHotspots_try_mv_def
      fetchHotspots_catch_mv_def fetchHotspots_finally_def setter_defs
      split: retrieval_outcome.split option.split)

text \<open>\<open>trim\<close> yields the empty string exactly on the blank queries.\<close>

lemma dropWhile_all: "list_all P s \<Longrightarrow> dropWhile P s = []"
  by (simp add: list_all_iff)

lemma trim_blank: "list_all is_ws s \<Longrightarrow> trim s = []"
  by (simp add: trim_def dropWhile_all)

lemma trim_empty_iff: "trim s = [] \<longleftrightarrow> list_all is_ws s"
proof
  assume "trim s = []"
  then have a: "\<forall>x\<in>set (dropWhile is_ws s). is_ws x"
    by (simp add: trim_def)
  have "dropWhile is_ws s = []"
  proof (rule ccontr)
    assume n: "dropWhile is_ws s \<noteq> []"
    then have "\<not> is_ws (hd (dropWhile is_ws s))" by (rule hd_dropWhile)
    moreover from n have "hd (dropWhile is_ws s) \<in> set (dropWhile is_ws s)" by simp
    ultimately show False using a by blast
  qed
  then show "list_all is_ws s" by (simp add: list_all_iff)
next
  assume "list_all is_ws s"
  then show "trim s = []" by (rule trim_blank)
qed

text \<open>The handlers on the branches the claims are about, as one equation each.\<close>

lemma handleSearch_lz_none:
  assumes "trim (searchQuery st) \<noteq> []"
    and "geo = GeocodeData None \<or> geo = GeocodeData (Some [])"
  shows "handleSearch_lz parseFloat geo st =
     (setLoading False (setError (Some ''Location not found'')
        (send (GeocodeSearch (searchQuery st)) (setLoading True st))), None)"
  using assms by (auto simp add: handleSearch_lz_def handleSearch_try_lz_def Let_def)

lemma handleSearch_mv_none:
  assumes "trim (searchQuery st) \<noteq> []"
    and "geo = GeocodeData None \<or> geo = GeocodeData (Some [])"
  shows "handleSearch_mv parseFloat geo st =
     (setLoading False (setError (Some ''Location not found'')
        (send (GeocodeSearch (searchQuery st)) (setLoading True st))), None)"
  using assms by (auto simp add: handleSearch_mv_def handleSearch_try_mv_def Let_def)

lemma handleSearch_lz_found:
  assumes "trim (searchQuery st) \<noteq> []"
  shows "handleSearch_lz parseFloat (GeocodeData (Some (p # ps))) st =
     (fetchHotspots_issue (parseFloat (place_lat p)) (parseFloat (place_lon p))
        (setMapCenter (parseFloat (place_lat p), parseFloat (place_lon p))
          (send (GeocodeSearch (searchQuery st)) (setLoading True st))),
      Some (parseFloat (place_lat p), parseFloat (place_lon p)))"
  using assms by (simp add: handleSearch_lz_def handleSearch_try_lz_def Let_def)

lemma handleSearch_mv_found:
  assumes "trim (searchQuery st) \<noteq> []"
  shows "handleSearch_mv parseFloat (GeocodeData (Some (p # ps))) st =
     (setLoading False
        (fetchHotspots_issue (parseFloat (place_lat p)) (parseFloat (place_lon p))
          (setMapCenter (parseFloat (place_lat p), parseFloat (place_lon p))
            (send (GeocodeSearch (searchQuery st)) (setLoading True st)))),
      Some (mapCenter st, parseFloat (place_lat p), parseFloat (place_lon p)))"
  using assms by (simp add: handleSearch_mv_def handleSearch_try_mv_def Let_def setter_defs)

lemma geolocationEffect_lz_fallback:
  assumes "pos = PositionError \<or> pos = NoGeolocation"
  shows "geolocationEffect_lz pos st =
     (fetchHotspots_issue 34.0522 (- 118.2437) st, Some (34.0522, - 118.2437))"
  using assms by (auto simp add: geolocationEffect_lz_def defaultCenter_def)

lemma geolocationEffect_mv_fallback:
  assumes "pos = PositionError \<or> pos = NoGeolocation"
  shows "geolocationEffect_mv pos st =
     (fetchHotspots_issue 34.0522 (- 118.2437) st,
      Some ((34.0522, - 118.2437), 34.0522, - 118.2437))"
  using assms by (auto simp add: geolocationEffect_mv_def initial_state_def Let_def)

section \<open>Loading is always restored\<close>

text \<open>
  C1. Every call of \<open>fetchHotspots\<close>, in either copy of the component and whatever the
  request comes back with (a failed request, a \<open>null\<close> body, any body), ends with
  \<open>loading\<close> false.
\<close>

theorem fetchHotspots_restores_loading:
  "loading (fetchHotspots_lz clock la lo out st) = False \<and>
   loading (fetchHotspots_mv clock mc la lo out st) = False"
  by (simp add: fetchHotspots_lz_def fetchHotspots_mv_def fetchHotspots_settle_lz_def
      fetchHotspots_settle_mv_def fetchHotspots_finally_def setLoading_def)

section \<open>The degraded bundle\<close>

text \<open>
  In the copy that renders through \<open>LeafletMap\<close> the bundle is as the claim has it,
  for a failed request and for a \<open>null\<close> body alike: five hotspots at the queried
  coordinate plus the offsets, the confidences, the radiative powers and the weather.
\<close>

lemma mock_bundle_at_queried_coordinate_lz:
  assumes "out = RequestFailed \<or> out = ResponseData None"
  shows "hotspots (fetchHotspots_lz clock la lo out st) = mockHotspots clock la lo \<and>
         app_hotspots (fetchHotspots_lz clock la lo out st) = mockHotspots clock la lo \<and>
         app_weather (fetchHotspots_lz clock la lo out st) =
           Some \<lparr>temp = 32, humidity = 15, windSpeed = 25\<rparr> \<and>
         length (mockHotspots clock la lo) = 5 \<and>
         map lat (mockHotspots clock la lo) =
           [la + 0.10, la - 0.15, la + 0.20, la - 0.08, la + 0.25] \<and>
         map lng (mockHotspots clock la lo) =
           [lo + 0.10, lo + 0.20, lo - 0.10, lo - 0.15, lo + 0.05] \<and>
         map confidence (mockHotspots clock la lo) = [95, 78, 62, 45, 88] \<and>
         map frp (mockHotspots clock la lo) = [45.2, 32.1, 18.5, 12.3, 38.7]"
  using assms
  by (auto simp add: fetch_defs setter_defs mockHotspots_def mockWeather_def)

text \<open>
  C2. The claim: after a failed retrieval for \<open>(lat, lng)\<close> the five mock hotspots sit
  at that coordinate plus the fixed offsets. The copy in \<open>src/components/MapView.tsx\<close>
  adds the offsets to the \<open>mapCenter\<close> its callback closed over instead. From the initial
  state, a search that the geocoder resolves to \<open>(40.7128, -74.0060)\<close> and whose retrieval
  fails asks the backend about that coordinate, yet leaves the mock hotspots around
  \<open>(34.0522, -118.2437)\<close>: latitudes \<open>34.1522, \<dots>\<close> where the claim has \<open>40.8128, \<dots>\<close>.
\<close>

theorem mock_positions_follow_stale_center:
  "requests (settle_mv clock0 RequestFailed
      (handleSearch_mv parseFloat0 (GeocodeData (Some [newYork])) searching)) =
     [GeocodeSearch ''New York'', NearbyHotspots 40.7128 (- 74.006)] \<and>
   hotspots (settle_mv clock0 RequestFailed
      (handleSearch_mv parseFloat0 (GeocodeData (Some [newYork])) searching)) =
     mockHotspots clock0 34.0522 (- 118.2437) \<and>
   map lat (hotspots (settle_mv clock0 RequestFailed
      (handleSearch_mv parseFloat0 (GeocodeData (Some [newYork])) searching))) =
     [34.1522, 33.9022, 34.2522, 33.9722, 34.3022] \<and>
   map lat (mockHotspots clock0 40.7128 (- 74.006)) =
     [40.8128, 40.5628, 40.9128, 40.6328, 40.9628]"
proof -
  have q: "trim (searchQuery searching) \<noteq> []"
    by (simp add: searching_def trim_def is_ws_def)
  have s: "mapCenter searching = (34.0522, - 118.2437)"
    "requests searching = []" "searchQuery searching = ''New York''"
    by (simp_all add: searching_def initial_state_def)
  show ?thesis
    by (simp add: handleSearch_mv_found [OF q] settle_mv_def settle_mv_frame issue_frame
        setter_defs s parseFloat0_def newYork_def fetchHotspots_settle_mv_def
        fetchHotspots_try_mv_def fetchHotspots_catch_mv_def fetchHotspots_finally_def
        mockHotspots_def)
qed

section \<open>The ranked subset\<close>

text \<open>
  What \<open>onHotspotsUpdate\<close> receives on success, in each copy. Neither sorts.
\<close>

lemma ranked_subset_lz:
  "app_hotspots (fetchHotspots_lz clock la lo (ResponseData (Some d)) st) =
     (case top5 d of Some t \<Rightarrow> t
      | None \<Rightarrow> (case fetchedHotspots d of Some hs \<Rightarrow> hs | None \<Rightarrow> []))"
  by (simp add: fetch_defs setter_defs or_else_def)

lemma ranked_subset_mv:
  "app_hotspots (fetchHotspots_mv clock mc la lo (ResponseData (Some d)) st) =
     (case top5 d of Some t \<Rightarrow> t | None \<Rightarrow> [])"
  by (simp add: fetch_defs setter_defs or_else_def)

text \<open>
  C3. The claim: the list receives the server's \<open>top5\<close> when present and the returned
  hotspots otherwise. The copy in \<open>src/components/MapView.tsx\<close> hands over
  \<open>top5 || []\<close>: for a response with two hotspots and no \<open>top5\<close> the map gets both and the
  list gets none, where the other copy hands both to the list.
\<close>

theorem unranked_response_reaches_list_empty:
  "hotspots (fetchHotspots_mv clock0 (34.0522, - 118.2437) 34.0522 (- 118.2437)
      (ResponseData (Some unranked)) initial_state) = [hotspotA, hotspotB] \<and>
   app_hotspots (fetchHotspots_mv clock0 (34.0522, - 118.2437) 34.0522 (- 118.2437)
      (ResponseData (Some unranked)) initial_state) = [] \<and>
   app_hotspots (fetchHotspots_lz clock0 34.0522 (- 118.2437)
      (ResponseData (Some unranked)) initial_state) = [hotspotA, hotspotB]"
  by (simp add: ranked_subset_lz ranked_subset_mv unranked_def fetch_defs setter_defs or_else_def)

section \<open>Risk counts\<close>

lemma risk_partition:
  "length (filter isHighRisk hs) + length (filter isMediumRisk hs) + length (filter isLowRisk hs)
     = length hs"
proof (induction hs)
  case Nil
  show ?case by simp
next
  case (Cons h hs)
  have "(if isHighRisk h then 1 else 0) + (if isMediumRisk h then 1 else 0)
          + (if isLowRisk h then 1 else 0) = (1::nat)"
    by (simp add: isHighRisk_def isMediumRisk_def isLowRisk_def)
  with Cons show ?case by (simp split: if_splits)
qed

text \<open>
  C4 as stated fails: the counts are not taken over the sequence \<open>MapView\<close> holds. For a
  response with two high-confidence hotspots of which \<open>top5\<close> ranks one, the map holds
  two and the statistics bar reports one.
\<close>

theorem risk_counts_not_over_controller_hotspots:
  "hotspots (fetchHotspots_lz clock0 34 (- 118) (ResponseData (Some twoOfWhichOneRanked))
      initial_state) = [hotspotA, hotspotB] \<and>
   high (HotspotList_stats (hotspots (fetchHotspots_lz clock0 34 (- 118)
      (ResponseData (Some twoOfWhichOneRanked)) initial_state))) = 2 \<and>
   high (App_stats (fetchHotspots_lz clock0 34 (- 118)
      (ResponseData (Some twoOfWhichOneRanked)) initial_state)) = 1"
  by (simp add: fetch_defs setter_defs or_else_def twoOfWhichOneRanked_def App_stats_def
      HotspotList_stats_def isHighRisk_def hotspotA_def hotspotB_def initial_state_def)

text \<open>
  C4, as amended. The statistics bar counts over the whole sequence the list view is
  given, which is \<open>App\<close>'s \<open>hotspots\<close> cell, not over its first five elements; the three
  counts add up to the length of that sequence, as they do for any sequence. That cell
  holds what \<open>onHotspotsUpdate\<close> last received, the ranked subset: the server's \<open>top5\<close>
  whenever the body has one, so not the sequence the map holds unless the two coincide,
  as they do after a failure.
\<close>

theorem risk_counts_over_list_input:
  "total (App_stats st) = length (app_hotspots st) \<and>
   high (App_stats st) = length (filter isHighRisk (app_hotspots st)) \<and>
   medium (App_stats st) = length (filter isMediumRisk (app_hotspots st)) \<and>
   low (App_stats st) = length (filter isLowRisk (app_hotspots st)) \<and>
   high (App_stats st) + medium (App_stats st) + low (App_stats st) = length (app_hotspots st) \<and>
   high (HotspotList_stats hs) + medium (HotspotList_stats hs) + low (HotspotList_stats hs)
     = length hs \<and>
   app_hotspots (fetchHotspots_lz clock la lo (ResponseData (Some (d\<lparr>top5 := Some t\<rparr>))) st) = t \<and>
   app_hotspots (fetchHotspots_mv clock mc la lo (ResponseData (Some (d\<lparr>top5 := Some t\<rparr>))) st)
     = t \<and>
   app_hotspots (fetchHotspots_lz clock la lo RequestFailed st) =
     hotspots (fetchHotspots_lz clock la lo RequestFailed st) \<and>
   app_hotspots (fetchHotspots_mv clock mc la lo RequestFailed st) =
     hotspots (fetchHotspots_mv clock mc la lo RequestFailed st)"
  by (simp add: App_stats_def HotspotList_stats_def risk_partition fetch_defs setter_defs
      or_else_def)

section \<open>Confidence buckets\<close>

text \<open>
  C5. Every place that turns a confidence into a colour or a count (the badge text and
  background, the dot of a card, the marker icon of either map, the three filters of the
  statistics bar) decides by the same three buckets: High from 80, Medium from 50 and
  below 80, Low below 50. Exactly one of the three applies to any confidence; 80 is High
  and 50 is Medium.
\<close>

theorem bucketing_is_consistent:
  "getConfidenceColor c =
     (case spec_bucket c of High \<Rightarrow> ''text-danger'' | Medium \<Rightarrow> ''text-warning''
      | Low \<Rightarrow> ''text-caution'') \<and>
   getConfidenceBg c =
     (case spec_bucket c of High \<Rightarrow> ''bg-danger/20 border-danger/30''
      | Medium \<Rightarrow> ''bg-warning/20 border-warning/30'' | Low \<Rightarrow> ''bg-caution/20 border-caution/30'') \<and>
   cardDot c =
     (case spec_bucket c of High \<Rightarrow> ''bg-danger'' | Medium \<Rightarrow> ''bg-warning''
      | Low \<Rightarrow> ''bg-caution'') \<and>
   createMarkerIcon_mv c =
     (case spec_bucket c of High \<Rightarrow> ''#ef4444'' | Medium \<Rightarrow> ''#f97316'' | Low \<Rightarrow> ''#eab308'') \<and>
   createMarkerIcon_lm c =
     (case spec_bucket c of High \<Rightarrow> ''#ef4444'' | Medium \<Rightarrow> ''#f97316'' | Low \<Rightarrow> ''#eab308'') \<and>
   isHighRisk (h\<lparr>confidence := c\<rparr>) = (spec_bucket c = High) \<and>
   isMediumRisk (h\<lparr>confidence := c\<rparr>) = (spec_bucket c = Medium) \<and>
   isLowRisk (h\<lparr>confidence := c\<rparr>) = (spec_bucket c = Low) \<and>
   (spec_bucket c = High) = (c \<ge> 80) \<and>
   (spec_bucket c = Medium) = (50 \<le> c \<and> c < 80) \<and>
   (spec_bucket c = Low) = (c < 50) \<and>
   (of_bool (c \<ge> 80) + of_bool (50 \<le> c \<and> c < 80) + of_bool (c < 50) = (1::nat)) \<and>
   spec_bucket 80 = High \<and> spec_bucket 50 = Medium"
  by (simp add: getConfidenceColor_def getConfidenceBg_def cardDot_def createMarkerIcon_mv_def
      createMarkerIcon_lm_def isHighRisk_def isMediumRisk_def isLowRisk_def spec_bucket_def)

section \<open>A search without candidates\<close>

text \<open>
  C6. A search with a non-blank query for which the geocoder returns no candidate (an empty
  array, or no array) ends with the error \<open>Location not found\<close> and \<open>loading\<close> false; the only
  request sent is the geocoding one, no retrieval is in flight, and \<open>hotspots\<close> and
  \<open>mapCenter\<close> are as before. In both copies.
\<close>

theorem no_candidates_location_not_found:
  assumes "trim (searchQuery st) \<noteq> []"
    and "geo = GeocodeData None \<or> geo = GeocodeData (Some [])"
  shows "snd (handleSearch_lz parseFloat geo st) = None \<and>
         error (settle_lz clock out (handleSearch_lz parseFloat geo st)) = Some ''Location not found'' \<and>
         loading (settle_lz clock out (handleSearch_lz parseFloat geo st)) = False \<and>
         requests (settle_lz clock out (handleSearch_lz parseFloat geo st)) =
           requests st @ [GeocodeSearch (searchQuery st)] \<and>
         hotspots (settle_lz clock out (handleSearch_lz parseFloat geo st)) = hotspots st \<and>
         mapCenter (settle_lz clock out (handleSearch_lz parseFloat geo st)) = mapCenter st \<and>
         snd (handleSearch_mv parseFloat geo st) = None \<and>
         error (settle_mv clock out (handleSearch_mv parseFloat geo st)) = Some ''Location not found'' \<and>
         loading (settle_mv clock out (handleSearch_mv parseFloat geo st)) = False \<and>
         requests (settle_mv clock out (handleSearch_mv parseFloat geo st)) =
           requests st @ [GeocodeSearch (searchQuery st)] \<and>
         hotspots (settle_mv clock out (handleSearch_mv parseFloat geo st)) = hotspots st \<and>
         mapCenter (settle_mv clock out (handleSearch_mv parseFloat geo st)) = mapCenter st"
  using assms
  by (simp add: handleSearch_lz_none [OF assms] handleSearch_mv_none [OF assms]
      settle_lz_def settle_mv_def setter_defs)

theorem no_candidates_location_not_found_witness:
  "snd (handleSearch_lz parseFloat0 (GeocodeData (Some [])) searching) = None \<and>
   error (settle_lz clock0 RequestFailed
      (handleSearch_lz parseFloat0 (GeocodeData (Some [])) searching)) =
     Some ''Location not found'' \<and>
   loading (settle_lz clock0 RequestFailed
      (handleSearch_lz parseFloat0 (GeocodeData (Some [])) searching)) = False \<and>
   requests (settle_lz clock0 RequestFailed
      (handleSearch_lz parseFloat0 (GeocodeData (Some [])) searching)) =
     [GeocodeSearch ''New York'']"
proof -
  have h1: "trim (searchQuery searching) \<noteq> []"
    by (simp add: searching_def trim_def is_ws_def)
  have h2: "GeocodeData (Some []) = GeocodeData None \<or> GeocodeData (Some []) = GeocodeData (Some [])"
    by simp
  have s: "requests searching = []" "searchQuery searching = ''New York''"
    by (simp_all add: searching_def initial_state_def)
  from no_candidates_location_not_found [OF h1 h2, of parseFloat0 clock0 RequestFailed]
  show ?thesis by (simp add: s)
qed

section \<open>Geolocation failure\<close>

text \<open>
  C7 as stated fails in one part: the center is not the default after every failure. The
  failure callback does not set \<open>mapCenter\<close>, and it may run after a search has moved the
  center. After the search for New York, a position error sends the retrieval for
  \<open>(34.0522, -118.2437)\<close> while the center stays \<open>(40.7128, -74.006)\<close>.
\<close>

theorem late_geolocation_failure_keeps_searched_center:
  "snd (geolocationEffect_lz PositionError afterSearch) = Some (34.0522, - 118.2437) \<and>
   requests (settle_lz clock0 RequestFailed (geolocationEffect_lz PositionError afterSearch)) =
     [GeocodeSearch ''New York'', NearbyHotspots 40.7128 (- 74.006),
      NearbyHotspots 34.0522 (- 118.2437)] \<and>
   mapCenter (settle_lz clock0 RequestFailed (geolocationEffect_lz PositionError afterSearch)) =
     (40.7128, - 74.006)"
proof -
  have q: "trim (searchQuery searching) \<noteq> []"
    by (simp add: searching_def trim_def is_ws_def)
  have s: "requests searching = []" "searchQuery searching = ''New York''"
    by (simp_all add: searching_def initial_state_def)
  have e: "PositionError = PositionError \<or> PositionError = NoGeolocation" by simp
  have a: "mapCenter afterSearch = (40.7128, - 74.006)"
    "requests afterSearch = [GeocodeSearch ''New York'', NearbyHotspots 40.7128 (- 74.006)]"
    by (simp_all add: afterSearch_def handleSearch_lz_found [OF q] settle_lz_def
        settle_lz_frame issue_frame setter_defs s parseFloat0_def newYork_def)
  show ?thesis
    by (simp add: geolocationEffect_lz_fallback [OF e] settle_lz_def settle_lz_frame
        issue_frame a)
qed

text \<open>
  C7, as amended. When the position request fails, or the host has no geolocation, exactly
  one retrieval goes out, for \<open>(34.0522, -118.2437)\<close>. The path leaves \<open>mapCenter\<close> and
  \<open>userLocation\<close> unchanged, so the center is still that default when no search has moved
  it, as in the initial state. It sets no error of its own: \<open>error\<close> is absent once the
  retrieval is started, and after it settles it is absent or the mock-data advisory of the
  retrieval. In both copies.
\<close>

theorem geolocation_failure_uses_default:
  assumes "pos = PositionError \<or> pos = NoGeolocation"
  shows "snd (geolocationEffect_lz pos st) = Some (34.0522, - 118.2437) \<and>
         requests (fst (geolocationEffect_lz pos st)) =
           requests st @ [NearbyHotspots 34.0522 (- 118.2437)] \<and>
         error (fst (geolocationEffect_lz pos st)) = None \<and>
         requests (settle_lz clock out (geolocationEffect_lz pos st)) =
           requests st @ [NearbyHotspots 34.0522 (- 118.2437)] \<and>
         mapCenter (settle_lz clock out (geolocationEffect_lz pos st)) = mapCenter st \<and>
         mapCenter (settle_lz clock out (geolocationEffect_lz pos initial_state)) =
           (34.0522, - 118.2437) \<and>
         userLocation (settle_lz clock out (geolocationEffect_lz pos st)) = userLocation st \<and>
         (error (settle_lz clock out (geolocationEffect_lz pos st)) = None \<or>
          error (settle_lz clock out (geolocationEffect_lz pos st)) =
            Some ''Using mock data (backend not available)'') \<and>
         requests (fst (geolocationEffect_mv pos st)) =
           requests st @ [NearbyHotspots 34.0522 (- 118.2437)] \<and>
         error (fst (geolocationEffect_mv pos st)) = None \<and>
         requests (settle_mv clock out (geolocationEffect_mv pos st)) =
           requests st @ [NearbyHotspots 34.0522 (- 118.2437)] \<and>
         mapCenter (settle_mv clock out (geolocationEffect_mv pos st)) = mapCenter st \<and>
         mapCenter (settle_mv clock out (geolocationEffect_mv pos initial_state)) =
           (34.0522, - 118.2437) \<and>
         userLocation (settle_mv clock out (geolocationEffect_mv pos st)) = userLocation st \<and>
         (error (settle_mv clock out (geolocationEffect_mv pos st)) = None \<or>
          error (settle_mv clock out (geolocationEffect_mv pos st)) =
            Some ''Failed to fetch hotspot data. Using mock data.'')"
  by (simp add: geolocationEffect_lz_fallback [OF assms] geolocationEffect_mv_fallback [OF assms]
      settle_lz_def settle_mv_def settle_lz_frame settle_mv_frame settle_lz_error
      settle_mv_error issue_frame initial_state_def
      split: retrieval_outcome.split option.split)

theorem geolocation_failure_uses_default_witness:
  "requests (settle_lz clock0 RequestFailed (geolocationEffect_lz PositionError initial_state)) =
     [NearbyHotspots 34.0522 (- 118.2437)] \<and>
   mapCenter (settle_lz clock0 RequestFailed (geolocationEffect_lz PositionError initial_state)) =
     (34.0522, - 118.2437) \<and>
   error (fst (geolocationEffect_lz PositionError initial_state)) = None"
proof -
  have h: "PositionError = PositionError \<or> PositionError = NoGeolocation" by simp
  have s: "requests initial_state = []" "mapCenter initial_state = (34.0522, - 118.2437)"
    by (simp_all add: initial_state_def)
  from geolocation_failure_uses_default [OF h, of initial_state clock0 RequestFailed]
  show ?thesis by (simp add: s)
qed

section \<open>A search with a candidate\<close>

text \<open>
  C8. A search with a non-blank query for which the geocoder returns at least one candidate
  sets \<open>mapCenter\<close> to the first candidate's \<open>lat\<close> and \<open>lon\<close> passed through \<open>parseFloat\<close>,
  sends one retrieval, for exactly that coordinate, and leaves \<open>userLocation\<close> as it was;
  this is so when the handler returns and still so when the retrieval has settled. In
  both copies.
\<close>

theorem search_adopts_first_candidate:
  assumes "trim (searchQuery st) \<noteq> []"
    and "geo = GeocodeData (Some (p # ps))"
  shows "snd (handleSearch_lz parseFloat geo st) =
           Some (parseFloat (place_lat p), parseFloat (place_lon p)) \<and>
         mapCenter (settle_lz clock out (handleSearch_lz parseFloat geo st)) =
           (parseFloat (place_lat p), parseFloat (place_lon p)) \<and>
         requests (settle_lz clock out (handleSearch_lz parseFloat geo st)) =
           requests st @ [GeocodeSearch (searchQuery st),
             NearbyHotspots (parseFloat (place_lat p)) (parseFloat (place_lon p))] \<and>
         userLocation (settle_lz clock out (handleSearch_lz parseFloat geo st)) = userLocation st \<and>
         mapCenter (fst (handleSearch_mv parseFloat geo st)) =
           (parseFloat (place_lat p), parseFloat (place_lon p)) \<and>
         mapCenter (settle_mv clock out (handleSearch_mv parseFloat geo st)) =
           (parseFloat (place_lat p), parseFloat (place_lon p)) \<and>
         requests (settle_mv clock out (handleSearch_mv parseFloat geo st)) =
           requests st @ [GeocodeSearch (searchQuery st),
             NearbyHotspots (parseFloat (place_lat p)) (parseFloat (place_lon p))] \<and>
         userLocation (settle_mv clock out (handleSearch_mv parseFloat geo st)) = userLocation st"
  unfolding assms(2)
  by (simp add: handleSearch_lz_found [OF assms(1)] handleSearch_mv_found [OF assms(1)]
      settle_lz_def settle_mv_def settle_lz_frame settle_mv_frame issue_frame setter_defs)


theorem search_adopts_first_candidate_witness:
  "mapCenter (settle_lz clock0 RequestFailed
      (handleSearch_lz parseFloat0 (GeocodeData (Some [newYork])) searching)) =
     (40.7128, - 74.006) \<and>
   requests (settle_lz clock0 RequestFailed
      (handleSearch_lz parseFloat0 (GeocodeData (Some [newYork])) searching)) =
     [GeocodeSearch ''New York'', NearbyHotspots 40.7128 (- 74.006)] \<and>
   userLocation (settle_lz clock0 RequestFailed
      (handleSearch_lz parseFloat0 (GeocodeData (Some [newYork])) searching)) = None"
proof -
  have h1: "trim (searchQuery searching) \<noteq> []"
    by (simp add: searching_def trim_def is_ws_def)
  have s: "requests searching = []" "searchQuery searching = ''New York''"
    "userLocation searching = None"
    by (simp_all add: searching_def initial_state_def)
  from search_adopts_first_candidate [OF h1 refl, of parseFloat0 newYork "[]" clock0 RequestFailed]
  show ?thesis by (simp add: s parseFloat0_def newYork_def)
qed

section \<open>An empty result\<close>

text \<open>
  C9. After a successful retrieval whose body has an empty \<open>hotspots\<close> array (and, as the
  data model has it, a \<open>top5\<close> that is a subsequence of that array when present),
  \<open>hotspots\<close> is empty, \<open>error\<close> is absent, and the list view shows its empty state and no
  card. In both copies.
\<close>

theorem empty_result_is_not_an_error:
  assumes "fetchedHotspots d = Some []" and "ranked_within_hotspots d"
  shows "hotspots (fetchHotspots_lz clock la lo (ResponseData (Some d)) st) = [] \<and>
         error (fetchHotspots_lz clock la lo (ResponseData (Some d)) st) = None \<and>
         App_empty (fetchHotspots_lz clock la lo (ResponseData (Some d)) st) \<and>
         App_cards (fetchHotspots_lz clock la lo (ResponseData (Some d)) st) = [] \<and>
         hotspots (fetchHotspots_mv clock mc la lo (ResponseData (Some d)) st) = [] \<and>
         error (fetchHotspots_mv clock mc la lo (ResponseData (Some d)) st) = None \<and>
         App_empty (fetchHotspots_mv clock mc la lo (ResponseData (Some d)) st) \<and>
         App_cards (fetchHotspots_mv clock mc la lo (ResponseData (Some d)) st) = []"
proof -
  from assms have t: "top5 d = None \<or> top5 d = Some []"
    by (auto simp add: ranked_within_hotspots_def or_else_def split: option.splits)
  with assms(1) show ?thesis
    by (auto simp add: fetch_defs setter_defs or_else_def App_empty_def
        App_cards_def HotspotList_empty_def HotspotList_cards_def)
qed

theorem empty_result_is_not_an_error_witness:
  "ranked_within_hotspots nothingFound \<and>
   hotspots (fetchHotspots_lz clock0 34.0522 (- 118.2437)
      (ResponseData (Some nothingFound)) initial_state) = [] \<and>
   error (fetchHotspots_lz clock0 34.0522 (- 118.2437)
      (ResponseData (Some nothingFound)) initial_state) = None \<and>
   App_empty (fetchHotspots_lz clock0 34.0522 (- 118.2437)
      (ResponseData (Some nothingFound)) initial_state)"
proof -
  have h1: "fetchedHotspots nothingFound = Some []" by (simp add: nothingFound_def)
  have h2: "ranked_within_hotspots nothingFound"
    by (simp add: ranked_within_hotspots_def nothingFound_def or_else_def)
  from empty_result_is_not_an_error [OF h1 h2] h2 show ?thesis by blast
qed

section \<open>A blank query\<close>

text \<open>
  C10. A search whose query is empty or only white space changes nothing: the handler
  returns the state it was called in (so \<open>loading\<close>, \<open>error\<close>, \<open>mapCenter\<close>, \<open>hotspots\<close>,
  \<open>userLocation\<close> and the request log are as before) with no retrieval in flight,
  whatever the geocoder would have answered. In both copies.
\<close>

theorem blank_query_is_ignored:
  assumes "list_all is_ws (searchQuery st)"
  shows "handleSearch_lz parseFloat geo st = (st, None) \<and>
         settle_lz clock out (handleSearch_lz parseFloat geo st) = st \<and>
         handleSearch_mv parseFloat geo st = (st, None) \<and>
         settle_mv clock out (handleSearch_mv parseFloat geo st) = st"
  using assms by (simp add: handleSearch_lz_def handleSearch_mv_def settle_lz_def settle_mv_def trim_blank)

theorem blank_query_is_ignored_witness:
  "list_all is_ws (searchQuery blankQuery) \<and>
   handleSearch_lz parseFloat0 (GeocodeData (Some [newYork])) blankQuery = (blankQuery, None) \<and>
   handleSearch_mv parseFloat0 (GeocodeData (Some [newYork])) blankQuery = (blankQuery, None)"
proof -
  have h: "list_all is_ws (searchQuery blankQuery)"
    by (simp add: blankQuery_def is_ws_def)
  from blank_query_is_ignored [OF h, of parseFloat0 "GeocodeData (Some [newYork])"] h
  show ?thesis by simp
qed

end
